theory Spec2Isabelle
  imports Complex_Main "HOL-Library.Sublist"
begin

section \<open>Values read from a notebook file\<close>

text \<open>
  \<^verbatim>\<open>json.load\<close> turns the text of a notebook into Python values: \<^verbatim>\<open>None\<close>, booleans,
  numbers, strings, lists and dictionaries. The program never computes with a number; it
  only asks whether a value is empty or zero, and of which type it is, so one constructor
  stands for integers and finite floats alike.

  A Python \<^verbatim>\<open>str\<close> is modelled as a \<open>string\<close> whose characters are code points below 256.
  A dictionary is an association list read with \<open>map_of\<close>; its keys, in insertion order,
  are the first occurrences of the keys of the list.
\<close>

datatype json =
    JNull
  | JBool bool
  | JNum rat
  | JStr string
  | JArr "json list"
  | JObj "(string \<times> json) list"

text \<open>The exceptions the program can raise; none of them is caught by the parsing code.\<close>

datatype error = OSError | UnicodeDecodeError | JSONDecodeError | AttributeError | TypeError

text \<open>Sequencing of calls that may raise: the first exception ends the computation.\<close>

definition ebind :: "error + 'a \<Rightarrow> ('a \<Rightarrow> error + 'b) \<Rightarrow> error + 'b" where
  "ebind r f = (case r of Inl e \<Rightarrow> Inl e | Inr x \<Rightarrow> f x)"

text \<open>Truth value of a Python object, as \<^verbatim>\<open>not source\<close> and \<^verbatim>\<open>if traceback\<close> test it.\<close>

fun truthy :: "json \<Rightarrow> bool" where
  "truthy JNull = False"
| "truthy (JBool b) = b"
| "truthy (JNum n) = (n \<noteq> 0)"
| "truthy (JStr s) = (s \<noteq> [])"
| "truthy (JArr xs) = (xs \<noteq> [])"
| "truthy (JObj kvs) = (kvs \<noteq> [])"

text \<open>
  \<^verbatim>\<open>obj.get(key, default)\<close>: only a dictionary has the method; on any other value the
  attribute lookup raises \<^verbatim>\<open>AttributeError\<close>.
\<close>

fun dict_get :: "json \<Rightarrow> string \<Rightarrow> json \<Rightarrow> error + json" where
  "dict_get (JObj kvs) key dflt = Inr (case map_of kvs key of Some v \<Rightarrow> v | None \<Rightarrow> dflt)"
| "dict_get _ key dflt = Inl AttributeError"

definition dict_keys :: "(string \<times> json) list \<Rightarrow> string list" where
  "dict_keys kvs = rev (remdups (rev (map fst kvs)))"

text \<open>
  The items a \<^verbatim>\<open>for\<close> loop or \<^verbatim>\<open>str.join\<close> draws from a value: the elements of a list, the
  one-character strings of a string, the keys of a dictionary. Anything else is not
  iterable.
\<close>

fun py_iter :: "json \<Rightarrow> error + json list" where
  "py_iter (JArr xs) = Inr xs"
| "py_iter (JStr s) = Inr (map (\<lambda>c. JStr [c]) s)"
| "py_iter (JObj kvs) = Inr (map JStr (dict_keys kvs))"
| "py_iter _ = Inl TypeError"

section \<open>String operations of the Python library\<close>

definition dq :: char where
  "dq = CHR 0x22"

definition newline :: char where
  "newline = CHR 0x0A"

definition triple_quote :: string where
  "triple_quote = [dq, dq, dq]"

text \<open>
  \<^verbatim>\<open>str.isspace\<close> on the code points below 256: tab, line feed, vertical tab, form feed,
  carriage return, the four separators \<^verbatim>\<open>0x1C\<close> to \<^verbatim>\<open>0x1F\<close>, space, next line (\<^verbatim>\<open>0x85\<close>) and
  no-break space (\<^verbatim>\<open>0xA0\<close>).
\<close>

definition is_space :: "char \<Rightarrow> bool" where
  "is_space c \<longleftrightarrow> c \<in> set [CHR 0x09, CHR 0x0A, CHR 0x0B, CHR 0x0C, CHR 0x0D,
     CHR 0x1C, CHR 0x1D, CHR 0x1E, CHR 0x1F, CHR 0x20, CHR 0x85, CHR 0xA0]"

text \<open>\<^verbatim>\<open>s.strip()\<close>: the white space at both ends is dropped.\<close>

definition strip :: "string \<Rightarrow> string" where
  "strip s = rev (dropWhile is_space (rev (dropWhile is_space s)))"

text \<open>\<^verbatim>\<open>sep.join(items)\<close> on strings.\<close>

fun join_strings :: "string \<Rightarrow> string list \<Rightarrow> string" where
  "join_strings sep [] = []"
| "join_strings sep [s] = s"
| "join_strings sep (s # t # ss) = s @ sep @ join_strings sep (t # ss)"

text \<open>\<^verbatim>\<open>str.join\<close> raises \<^verbatim>\<open>TypeError\<close> at the first item that is not a string.\<close>

fun strs_of :: "json list \<Rightarrow> error + string list" where
  "strs_of [] = Inr []"
| "strs_of (JStr s # xs) = (case strs_of xs of Inl e \<Rightarrow> Inl e | Inr ss \<Rightarrow> Inr (s # ss))"
| "strs_of (_ # xs) = Inl TypeError"

definition str_join :: "string \<Rightarrow> json \<Rightarrow> error + string" where
  "str_join sep iterable =
     ebind (py_iter iterable) (\<lambda>items.
     ebind (strs_of items) (\<lambda>ss. Inr (join_strings sep ss)))"

text \<open>
  \<^verbatim>\<open>s.replace(old, new)\<close>: every occurrence of \<open>old\<close>, found from left to right without
  overlap, is replaced. With an empty \<open>old\<close>, \<open>new\<close> is put before every character and at
  the end.
\<close>

fun replace_from :: "string \<Rightarrow> string \<Rightarrow> nat \<Rightarrow> string \<Rightarrow> string" where
  "replace_from old new skip [] = []"
| "replace_from old new skip (c # cs) =
     (if 0 < skip then replace_from old new (skip - 1) cs
      else if prefix old (c # cs) then new @ replace_from old new (length old - 1) cs
      else c # replace_from old new 0 cs)"

definition str_replace :: "string \<Rightarrow> string \<Rightarrow> string \<Rightarrow> string" where
  "str_replace old new s =
     (if old = [] then new @ concat (map (\<lambda>c. c # new) s) else replace_from old new 0 s)"

section \<open>The title of a cell\<close>

text \<open>
  \<^verbatim>\<open>re.search(r'"""([^\n]+)\n', source_text)\<close> tries the pattern at every position from
  left to right and returns the first match. At one position the pattern asks for three
  double quotes, then \<^verbatim>\<open>[^\n]+\<close>, then a line feed. The greedy \<^verbatim>\<open>[^\n]+\<close> takes every
  character up to the next line feed or the end of the text; giving characters back
  cannot help, since the character that would then have to be the line feed is one that
  \<^verbatim>\<open>[^\n]\<close> matched. So the pattern matches at a position exactly when the run after the
  quotes is not empty and ends at a line feed, and group 1 is that run.
\<close>

definition match_docstring :: "string \<Rightarrow> string option" where
  "match_docstring s =
     (if take 3 s = triple_quote then
        (let rest = drop 3 s;
             g = takeWhile (\<lambda>c. c \<noteq> newline) rest
         in if g \<noteq> [] \<and> dropWhile (\<lambda>c. c \<noteq> newline) rest \<noteq> [] then Some g else None)
      else None)"

fun re_search_docstring :: "string \<Rightarrow> string option" where
  "re_search_docstring [] = None"
| "re_search_docstring (c # cs) =
     (case match_docstring (c # cs) of
        Some g \<Rightarrow> Some g
      | None \<Rightarrow> re_search_docstring cs)"

definition extract_title_from_source :: "string \<Rightarrow> string" where
  "extract_title_from_source source_text =
     (case re_search_docstring source_text of
        Some g \<Rightarrow> strip g
      | None \<Rightarrow> [])"

section \<open>The output text of a cell\<close>

text \<open>
  Modelled from the spec: \<^verbatim>\<open>remove_ansi_codes\<close> is \<^verbatim>\<open>strip_ansi\<close> of the click library, which
  the source imports and which is not part of the repository. The spec calls it the
  stripping of ANSI/terminal control escape sequences. click deletes every match of
  \<^verbatim>\<open>\033\[[;?0-9]*[a-zA-Z]\<close>, found from left to right: the escape character, an opening
  bracket, any number of parameter characters and one ASCII letter.
\<close>

definition ansi_param :: "char \<Rightarrow> bool" where
  "ansi_param c \<longleftrightarrow> c = CHR '';'' \<or> c = CHR ''?'' \<or> (48 \<le> (of_char c :: nat) \<and> (of_char c :: nat) \<le> 57)"

definition ascii_letter :: "char \<Rightarrow> bool" where
  "ascii_letter c \<longleftrightarrow> (97 \<le> (of_char c :: nat) \<and> (of_char c :: nat) \<le> 122)
     \<or> (65 \<le> (of_char c :: nat) \<and> (of_char c :: nat) \<le> 90)"

text \<open>The length of the escape sequence at the start of the text, if there is one.\<close>

definition match_ansi :: "string \<Rightarrow> nat option" where
  "match_ansi s =
     (case s of
        e # b # rest \<Rightarrow>
          if e = CHR 0x1B \<and> b = CHR ''[''
          then (case dropWhile ansi_param rest of
                  l # _ \<Rightarrow> if ascii_letter l then Some (length (takeWhile ansi_param rest) + 3) else None
                | [] \<Rightarrow> None)
          else None
      | _ \<Rightarrow> None)"

fun strip_ansi_from :: "nat \<Rightarrow> string \<Rightarrow> string" where
  "strip_ansi_from skip [] = []"
| "strip_ansi_from skip (c # cs) =
     (if 0 < skip then strip_ansi_from (skip - 1) cs
      else (case match_ansi (c # cs) of
              Some n \<Rightarrow> strip_ansi_from (n - 1) cs
            | None \<Rightarrow> c # strip_ansi_from 0 cs))"

definition remove_ansi_codes :: "string \<Rightarrow> string" where
  "remove_ansi_codes s = strip_ansi_from 0 s"

text \<open>
  The body of the loop over the output records: \<open>output_texts\<close> is the list built so far,
  and the result is the list after this record. \<^verbatim>\<open>extend\<close> adds the items of a list,
  \<^verbatim>\<open>append\<close> adds the value itself, whatever it is.
\<close>

definition add_text :: "json \<Rightarrow> json list \<Rightarrow> json list" where
  "add_text text output_texts =
     (case text of JArr xs \<Rightarrow> output_texts @ xs | _ \<Rightarrow> output_texts @ [text])"

definition output_step :: "json \<Rightarrow> json list \<Rightarrow> error + json list" where
  "output_step output output_texts =
     ebind (dict_get output ''output_type'' (JStr [])) (\<lambda>output_type.
       if output_type = JStr ''stream'' then
         ebind (dict_get output ''text'' (JArr [])) (\<lambda>text.
           Inr (add_text text output_texts))
       else if output_type = JStr ''execute_result'' then
         ebind (dict_get output ''data'' (JObj [])) (\<lambda>data.
         ebind (dict_get data ''text/plain'' (JArr [])) (\<lambda>text_plain.
           Inr (add_text text_plain output_texts)))
       else if output_type = JStr ''error'' then
         ebind (dict_get output ''traceback'' (JArr [])) (\<lambda>traceback.
           if truthy traceback then
             ebind (str_join [newline] traceback) (\<lambda>joined.
               Inr (output_texts @ [JStr joined]))
           else Inr output_texts)
       else Inr output_texts)"

fun collect_outputs :: "json list \<Rightarrow> json list \<Rightarrow> error + json list" where
  "collect_outputs [] output_texts = Inr output_texts"
| "collect_outputs (output # rest) output_texts =
     (case output_step output output_texts of
        Inl e \<Rightarrow> Inl e
      | Inr texts \<Rightarrow> collect_outputs rest texts)"

definition extract_output_from_outputs :: "json \<Rightarrow> error + string" where
  "extract_output_from_outputs outputs =
     ebind (py_iter outputs) (\<lambda>records.
     ebind (collect_outputs records []) (\<lambda>output_texts.
     ebind (str_join [] (JArr output_texts)) (\<lambda>joined.
       Inr (remove_ansi_codes (strip joined)))))"

section \<open>The cells of a notebook\<close>

record entry =
  title :: string
  "output" :: string

text \<open>
  \<^verbatim>\<open>re.search\<close> accepts a string only; \<open>source_text\<close> is something else when the cell's
  source is a number, \<^verbatim>\<open>True\<close> or a dictionary that is not empty.
\<close>

definition title_of_source_text :: "json \<Rightarrow> error + string" where
  "title_of_source_text source_text =
     (case source_text of
        JStr s \<Rightarrow> Inr (extract_title_from_source s)
      | _ \<Rightarrow> Inl TypeError)"

definition join_source :: "json \<Rightarrow> error + json" where
  "join_source source =
     (case source of
        JArr xs \<Rightarrow> ebind (str_join [] source) (\<lambda>s. Inr (JStr s))
      | _ \<Rightarrow> Inr source)"

text \<open>
  The body of the loop over the cells: \<open>None\<close> when the cell is passed over (by
  \<^verbatim>\<open>continue\<close>, or at the final test), the entry appended otherwise.
\<close>

definition process_cell :: "json \<Rightarrow> error + entry option" where
  "process_cell cell =
     ebind (dict_get cell ''cell_type'' JNull) (\<lambda>cell_type.
       if cell_type \<noteq> JStr ''code'' then Inr None
       else
         ebind (dict_get cell ''source'' (JArr [])) (\<lambda>source.
           if \<not> truthy source then Inr None
           else
             ebind (join_source source) (\<lambda>source_text.
             ebind (title_of_source_text source_text) (\<lambda>t.
             ebind (dict_get cell ''outputs'' (JArr [])) (\<lambda>outputs.
             ebind (extract_output_from_outputs outputs) (\<lambda>output_text.
               if t \<noteq> [] \<and> output_text \<noteq> []
               then Inr (Some \<lparr>title = t, output = output_text\<rparr>)
               else Inr None))))))"

fun parse_cells :: "json list \<Rightarrow> entry list \<Rightarrow> error + entry list" where
  "parse_cells [] results = Inr results"
| "parse_cells (cell # cells) results =
     (case process_cell cell of
        Inl e \<Rightarrow> Inl e
      | Inr None \<Rightarrow> parse_cells cells results
      | Inr (Some r) \<Rightarrow> parse_cells cells (results @ [r]))"

text \<open>What \<^verbatim>\<open>parse_jupyter_notebook\<close> does with the decoded document.\<close>

definition parse_notebook :: "json \<Rightarrow> error + entry list" where
  "parse_notebook notebook =
     ebind (dict_get notebook ''cells'' (JArr [])) (\<lambda>cells.
     ebind (py_iter cells) (\<lambda>cs. parse_cells cs []))"

section \<open>Files\<close>

text \<open>
  The file system maps a path to what \<^verbatim>\<open>open\<close> and \<^verbatim>\<open>json.load\<close> make of the file there:
  text that is not UTF-8, text that is not JSON, or the decoded document. Directories and
  what is printed are not modelled.
\<close>

datatype file_content = NotUTF8 | NotJSON | Document json

type_synonym filesystem = "string \<rightharpoonup> file_content"

definition parse_jupyter_notebook :: "filesystem \<Rightarrow> string \<Rightarrow> (error + entry list) \<times> filesystem" where
  "parse_jupyter_notebook fs notebook_path =
     (case fs notebook_path of
        None \<Rightarrow> (Inl OSError, fs)
      | Some NotUTF8 \<Rightarrow> (Inl UnicodeDecodeError, fs)
      | Some NotJSON \<Rightarrow> (Inl JSONDecodeError, fs)
      | Some (Document notebook) \<Rightarrow> (parse_notebook notebook, fs))"

text \<open>The document \<^verbatim>\<open>json.dump\<close> writes for the results.\<close>

definition results_json :: "entry list \<Rightarrow> json" where
  "results_json results =
     JArr (map (\<lambda>r. JObj [(''title'', JStr (title r)), (''output'', JStr (output r))]) results)"

text \<open>
  \<^verbatim>\<open>save_parsed_results\<close>: the target path is the one given or, by default, the source
  path after \<^verbatim>\<open>replace('.ipynb', '_parsed.json')\<close>. An exception of the parsing ends the
  call before anything is written. The empty path names no file, and \<^verbatim>\<open>open\<close> raises
  \<^verbatim>\<open>FileNotFoundError\<close> for it; other failures of \<^verbatim>\<open>mkdir\<close> and of the writing (a target
  that is a directory, missing rights) are not modelled. Otherwise the results are written
  to the target, the source is removed if asked for (after the writing, so a target that
  is the source itself is removed too), and the target path is returned.
\<close>

definition save_parsed_results ::
    "filesystem \<Rightarrow> string \<Rightarrow> string option \<Rightarrow> bool \<Rightarrow> (error + string) \<times> filesystem" where
  "save_parsed_results fs notebook_path output_path_arg remove_source =
     (let output_path =
            (case output_path_arg of
               None \<Rightarrow> str_replace ''.ipynb'' ''_parsed.json'' notebook_path
             | Some p \<Rightarrow> p)
      in case parse_jupyter_notebook fs notebook_path of
           (Inl e, fs1) \<Rightarrow> (Inl e, fs1)
         | (Inr results, fs1) \<Rightarrow>
             if output_path = [] then (Inl OSError, fs1)
             else
               (let fs2 = fs1(output_path \<mapsto> Document (results_json results));
                    fs3 = (if remove_source then fs2(notebook_path := None) else fs2)
                in (Inr output_path, fs3)))"

section \<open>The statements of the specification\<close>

text \<open>
  The pattern of the title search in the words of the specification: at position \<open>i\<close> of
  \<open>s\<close> stand three double quotes, followed immediately by the characters \<open>line\<close>, at
  least one and none of them a line feed, and then a line feed.
\<close>

definition header_at :: "string \<Rightarrow> nat \<Rightarrow> string \<Rightarrow> bool" where
  "header_at s i line \<longleftrightarrow>
     line \<noteq> [] \<and> newline \<notin> set line \<and> prefix (triple_quote @ line @ [newline]) (drop i s)"








section \<open>Example documents\<close>

text \<open>
  The first scenario of the specification: one code cell with the source
  \<^verbatim>\<open>"""Compute Sum\nAdds two numbers\n"""\nprint(1+1)\<close> and the stream output \<^verbatim>\<open>2\n\<close>.
\<close>

definition example_source :: string where
  "example_source = triple_quote @ ''Compute Sum'' @ [newline] @ ''Adds two numbers'' @ [newline]
     @ triple_quote @ [newline] @ ''print(1+1)''"

definition example_cell :: json where
  "example_cell = JObj [(''cell_type'', JStr ''code''), (''source'', JStr example_source),
     (''outputs'', JArr [JObj [(''output_type'', JStr ''stream''),
        (''text'', JArr [JStr (''2'' @ [newline])])]])]"

definition example_notebook :: json where
  "example_notebook = JObj [(''cells'', JArr [example_cell])]"

definition example_fs :: filesystem where
  "example_fs = Map.empty(''demo.ipynb'' \<mapsto> Document example_notebook)"

text \<open>The error scenario of the specification: a traceback of two lines under a title.\<close>

definition traceback_lines :: "string list" where
  "traceback_lines = [''Traceback (most recent call last):'', ''ValueError: bad'']"

definition error_record :: json where
  "error_record = JObj [(''output_type'', JStr ''error''),
     (''traceback'', JArr (map JStr traceback_lines))]"

definition error_cell :: json where
  "error_cell = JObj [(''cell_type'', JStr ''code''),
     (''source'', JStr (triple_quote @ ''Risky step'' @ [newline] @ ''run()'')),
     (''outputs'', JArr [error_record])]"




text \<open>
  A cell whose docstring opens with an empty line and is followed by a function with a
  docstring of its own, and a cell whose docstring opens with a line of a space and a tab.
\<close>

definition blank_first_source :: string where
  "blank_first_source = triple_quote @ [newline] @ ''Load data'' @ [newline] @ triple_quote @ [newline]
     @ ''def helper():'' @ [newline] @ ''    '' @ triple_quote @ ''Helper'' @ [newline]
     @ ''    '' @ triple_quote @ [newline] @ ''print(1)''"

definition blank_first_cell :: json where
  "blank_first_cell = JObj [(''cell_type'', JStr ''code''), (''source'', JStr blank_first_source),
     (''outputs'', JArr [JObj [(''output_type'', JStr ''stream''),
        (''text'', JArr [JStr (''1'' @ [newline])])]])]"

definition padded_first_cell :: "(string \<times> json) list" where
  "padded_first_cell = [(''cell_type'', JStr ''code''),
     (''source'', JArr [JStr (triple_quote @ [CHR 0x20, CHR 0x09] @ [newline]),
                        JStr (''Summary'' @ [newline]), JStr triple_quote]),
     (''outputs'', JArr [JObj [(''output_type'', JStr ''stream''),
        (''text'', JArr [JStr (''1'' @ [newline])])]])]"

text \<open>The example notebook as Jupyter keeps its checkpoint, in a directory \<^verbatim>\<open>.ipynb_checkpoints\<close>.\<close>

definition checkpoint_fs :: filesystem where
  "checkpoint_fs = Map.empty(''.ipynb_checkpoints/demo.ipynb'' \<mapsto> Document example_notebook)"

text \<open>
  A cell whose source comes in fragments and whose traceback has three lines, and a
  notebook of three cells: the first scenario, a markdown cell and the error scenario.
\<close>

definition long_error_cell :: json where
  "long_error_cell = JObj [(''cell_type'', JStr ''code''),
     (''source'', JArr [JStr (triple_quote @ ''Look up'' @ [newline]), JStr triple_quote]),
     (''outputs'', JArr [JObj [(''output_type'', JStr ''error''),
        (''traceback'', JArr [JStr ''Traceback:'', JStr ''  step'', JStr ''KeyError: k''])]])]"



section \<open>Auxiliary facts\<close>

lemma ebind_Inl: "ebind (Inl e) f = Inl e"
  by (simp add: ebind_def)

lemma ebind_Inr: "ebind (Inr x) f = f x"
  by (simp add: ebind_def)

lemma ebind_eq_Inr: "ebind r f = Inr y \<longleftrightarrow> (\<exists>x. r = Inr x \<and> f x = Inr y)"
  by (cases r) (simp_all add: ebind_def)

lemma example_parsed:
  "parse_notebook example_notebook = Inr [\<lparr>title = ''Compute Sum'', output = ''2''\<rparr>]"
  by code_simp

subsection \<open>Joining and trimming\<close>

lemma strs_of_strings: "strs_of (map JStr ss) = Inr ss"
  by (induction ss) simp_all


lemma join_strings_lines:
  "ls \<noteq> [] \<Longrightarrow> join_strings sep ls = concat (map (\<lambda>l. l @ sep) (butlast ls)) @ last ls"
  by (induction sep ls rule: join_strings.induct) simp_all

lemma str_join_strings: "str_join sep (JArr (map JStr ss)) = Inr (join_strings sep ss)"
  by (simp add: str_join_def ebind_Inr strs_of_strings)


lemma strip_all_space:
  assumes "\<forall>c \<in> set s. is_space c"
  shows "strip s = []"
proof -
  from assms have drop: "dropWhile is_space s = []"
    by simp
  show ?thesis
    unfolding strip_def drop by simp
qed


subsection \<open>The loop over the output records\<close>

lemma collect_outputs_append:
  "collect_outputs (xs @ ys) texts = ebind (collect_outputs xs texts) (collect_outputs ys)"
  by (induction xs arbitrary: texts) (simp_all add: ebind_Inr ebind_Inl split: sum.splits)

lemma error_step:
  assumes "map_of kvs ''output_type'' = Some (JStr ''error'')"
    and "map_of kvs ''traceback'' = Some (JArr (map JStr ls))" and "ls \<noteq> []"
  shows "output_step (JObj kvs) texts = Inr (texts @ [JStr (join_strings [newline] ls)])"
  using assms by (simp add: output_step_def ebind_Inr str_join_strings)







subsection \<open>The loop over the cells\<close>

lemma process_cell_nonempty:
  "process_cell cell = Inr (Some r) \<Longrightarrow> title r \<noteq> [] \<and> output r \<noteq> []"
  by (auto simp: process_cell_def ebind_eq_Inr split: if_splits)

lemma parse_cells_nonempty:
  "parse_cells cells results = Inr rs \<Longrightarrow>
   \<forall>r \<in> set results. title r \<noteq> [] \<and> output r \<noteq> [] \<Longrightarrow>
   \<forall>r \<in> set rs. title r \<noteq> [] \<and> output r \<noteq> []"
proof (induction cells arbitrary: results)
  case Nil
  then show ?case by simp
next
  case (Cons cell cells)
  note run = Cons.prems(1) and inv = Cons.prems(2)
  show ?case
  proof (cases "process_cell cell")
    case (Inl e)
    with run show ?thesis by simp
  next
    case (Inr step)
    show ?thesis
    proof (cases step)
      case None
      with Inr run have "parse_cells cells results = Inr rs"
        by simp
      then show ?thesis
        using inv by (rule Cons.IH)
    next
      case (Some r)
      with Inr have cell: "process_cell cell = Inr (Some r)"
        by simp
      then have "title r \<noteq> [] \<and> output r \<noteq> []"
        by (rule process_cell_nonempty)
      with inv have "\<forall>x \<in> set (results @ [r]). title x \<noteq> [] \<and> output x \<noteq> []"
        by simp
      moreover from cell run have "parse_cells cells (results @ [r]) = Inr rs"
        by simp
      ultimately show ?thesis
        by (rule Cons.IH [rotated])
    qed
  qed
qed

lemma parse_notebook_nonempty:
  "parse_notebook notebook = Inr rs \<Longrightarrow> r \<in> set rs \<Longrightarrow> title r \<noteq> [] \<and> output r \<noteq> []"
proof -
  assume "parse_notebook notebook = Inr rs" and r: "r \<in> set rs"
  then obtain cs where "parse_cells cs [] = Inr rs"
    by (auto simp: parse_notebook_def ebind_eq_Inr)
  then have "\<forall>x \<in> set rs. title x \<noteq> [] \<and> output x \<noteq> []"
    by (rule parse_cells_nonempty) simp
  with r show ?thesis
    by blast
qed

lemma source_truthy:
  assumes "join_source source = Inr (JStr src)" and "src \<noteq> []"
  shows "truthy source"
proof (cases source)
  case (JArr xs)
  with assms show ?thesis
    by (cases xs) (auto simp: join_source_def str_join_def ebind_eq_Inr)
qed (use assms in \<open>simp_all add: join_source_def\<close>)

lemma title_needs_text: "extract_title_from_source src \<noteq> [] \<Longrightarrow> src \<noteq> []"
  by (auto simp: extract_title_from_source_def)





subsection \<open>The title search\<close>

lemma length_triple_quote: "length triple_quote = 3"
  by (simp add: triple_quote_def)

lemma match_docstring_header:
  assumes "header_at s 0 line"
  shows "match_docstring s = Some line"
proof -
  from assms obtain rest where s: "s = triple_quote @ line @ newline # rest"
    and ne: "line \<noteq> []" and nl: "newline \<notin> set line"
    by (auto simp: header_at_def prefix_def)
  have tw: "takeWhile (\<lambda>c. c \<noteq> newline) (line @ newline # rest) = line"
    using nl by (auto simp: takeWhile_tail)
  have dw: "dropWhile (\<lambda>c. c \<noteq> newline) (line @ newline # rest) = newline # rest"
    using nl by (auto simp: dropWhile_append3)
  show ?thesis
    using ne by (simp add: match_docstring_def s length_triple_quote tw dw)
qed

lemma header_of_match:
  assumes "match_docstring s = Some g"
  shows "header_at s 0 g"
proof -
  let ?rest = "drop 3 s"
  from assms have tq: "take 3 s = triple_quote"
    and g: "g = takeWhile (\<lambda>c. c \<noteq> newline) ?rest" and ne: "g \<noteq> []"
    and dw: "dropWhile (\<lambda>c. c \<noteq> newline) ?rest \<noteq> []"
    by (auto simp: match_docstring_def Let_def split: if_splits)
  from dw obtain c cs where cs: "dropWhile (\<lambda>c. c \<noteq> newline) ?rest = c # cs"
    by (cases "dropWhile (\<lambda>c. c \<noteq> newline) ?rest") auto
  then have "c = newline"
    using hd_dropWhile [of "\<lambda>c. c \<noteq> newline" ?rest] by auto
  have "s = take 3 s @ ?rest"
    by simp
  also have "?rest = g @ c # cs"
    using takeWhile_dropWhile_id [of "\<lambda>c. c \<noteq> newline" ?rest] by (simp add: g cs)
  finally have "s = triple_quote @ g @ newline # cs"
    using tq \<open>c = newline\<close> by simp
  moreover have "newline \<notin> set g"
    unfolding g using set_takeWhileD by fastforce
  ultimately show ?thesis
    using ne by (auto simp: header_at_def prefix_def)
qed

lemma no_match_without_header:
  assumes "\<forall>l. \<not> header_at s 0 l"
  shows "match_docstring s = None"
  using assms header_of_match [of s] by (cases "match_docstring s") auto

lemma header_at_Suc: "header_at (c # cs) (Suc k) line = header_at cs k line"
  by (simp add: header_at_def)

lemma no_header_in_Nil: "\<not> header_at [] i line"
  by (simp add: header_at_def triple_quote_def)

lemma search_finds_first_header:
  "header_at s i line \<Longrightarrow> (\<forall>j<i. \<forall>l. \<not> header_at s j l) \<Longrightarrow> re_search_docstring s = Some line"
proof (induction s arbitrary: i)
  case Nil
  then show ?case by (simp add: no_header_in_Nil)
next
  case (Cons c cs)
  show ?case
  proof (cases i)
    case 0
    with Cons.prems show ?thesis
      by (simp add: match_docstring_header)
  next
    case (Suc k)
    with Cons.prems have "\<forall>l. \<not> header_at (c # cs) 0 l"
      by simp
    then have none: "match_docstring (c # cs) = None"
      by (rule no_match_without_header)
    from Cons.prems Suc have here: "header_at cs k line"
      by (simp add: header_at_Suc)
    have "\<forall>j<k. \<forall>l. \<not> header_at cs j l"
    proof (intro allI impI)
      fix j l
      assume "j < k"
      then have "Suc j < i"
        using Suc by simp
      with Cons.prems have "\<not> header_at (c # cs) (Suc j) l"
        by blast
      then show "\<not> header_at cs j l"
        by (simp add: header_at_Suc)
    qed
    with here have "re_search_docstring cs = Some line"
      by (rule Cons.IH)
    with none show ?thesis
      by simp
  qed
qed




lemma search_after_blank_line:
  "re_search_docstring (triple_quote @ newline # rest) = re_search_docstring rest"
  by (simp add: triple_quote_def match_docstring_def dq_def newline_def)

lemma search_padded_line:
  assumes "ws \<noteq> []" and "\<forall>c \<in> set ws. is_space c \<and> c \<noteq> newline"
  shows "re_search_docstring (triple_quote @ ws @ newline # rest) = Some ws"
proof -
  from assms have "header_at (triple_quote @ ws @ newline # rest) 0 ws"
    by (auto simp: header_at_def)
  then show ?thesis
    using search_finds_first_header [of _ 0 ws] by simp
qed

lemma process_cell_title:
  assumes "process_cell (JObj cell) = Inr (Some r)"
    and "map_of cell ''source'' = Some source" and "join_source source = Inr (JStr s)"
  shows "title r = extract_title_from_source s"
  using assms
  by (auto simp: process_cell_def ebind_eq_Inr title_of_source_text_def split: if_splits)

section \<open>Claims about the document extractor\<close>

text \<open>
  C1, as the code has it. The specification lets a document without a top-level cells
  collection fail. The code reads the collection with \<^verbatim>\<open>notebook.get('cells', [])\<close>: a
  document that is a JSON object without the key \<open>cells\<close> has no cells, and the call
  returns the empty sequence. A valid document that is not an object (a list, a string, a
  number) has no \<^verbatim>\<open>get\<close>, and the call fails with an \<^verbatim>\<open>AttributeError\<close>.
\<close>

theorem parse_without_cells:
  "fs notebook_path = Some (Document notebook) \<Longrightarrow>
     (case notebook of
        JObj kvs \<Rightarrow>
          map_of kvs ''cells'' = None \<longrightarrow> fst (parse_jupyter_notebook fs notebook_path) = Inr []
      | _ \<Rightarrow> fst (parse_jupyter_notebook fs notebook_path) = Inl AttributeError)"
  by (cases notebook)
    (simp_all add: parse_jupyter_notebook_def parse_notebook_def ebind_Inr ebind_Inl)

text \<open>
  C1, at two documents: an object with the key \<open>nbformat\<close> only, and an empty list.
\<close>

theorem parse_without_cells_witness:
  "fst (parse_jupyter_notebook
          (Map.empty(''a.ipynb'' \<mapsto> Document (JObj [(''nbformat'', JNum 4)]))) ''a.ipynb'') = Inr []
   \<and> fst (parse_jupyter_notebook
          (Map.empty(''a.ipynb'' \<mapsto> Document (JArr []))) ''a.ipynb'') = Inl AttributeError"
  using parse_without_cells
      [of "Map.empty(''a.ipynb'' \<mapsto> Document (JObj [(''nbformat'', JNum 4)]))" "''a.ipynb''"
          "JObj [(''nbformat'', JNum 4)]"]
    parse_without_cells
      [of "Map.empty(''a.ipynb'' \<mapsto> Document (JArr []))" "''a.ipynb''" "JArr []"]
  by simp

text \<open>
  C1 as the specification states it fails: the document \<^verbatim>\<open>{"metadata": {}}\<close> is valid JSON
  and has no cells collection, and the call returns the empty sequence instead of failing.
\<close>

theorem parse_no_cells_counterexample:
  "fst (parse_jupyter_notebook
          (Map.empty(''nb.ipynb'' \<mapsto> Document (JObj [(''metadata'', JObj [])]))) ''nb.ipynb'')
     = Inr []"
  by (simp add: parse_jupyter_notebook_def parse_notebook_def ebind_Inr)

text \<open>
  C2: whatever the file system and the path, every entry of a sequence that
  \<^verbatim>\<open>parse_jupyter_notebook\<close> returns has a title that is not empty and an output that is
  not empty.
\<close>

theorem results_never_empty:
  "parse_jupyter_notebook fs notebook_path = (Inr rs, fs') \<Longrightarrow> r \<in> set rs \<Longrightarrow>
   title r \<noteq> [] \<and> output r \<noteq> []"
proof -
  assume run: "parse_jupyter_notebook fs notebook_path = (Inr rs, fs')" and r: "r \<in> set rs"
  from run obtain notebook where "parse_notebook notebook = Inr rs"
    by (auto simp: parse_jupyter_notebook_def split: option.splits file_content.splits)
  then show ?thesis
    using r by (rule parse_notebook_nonempty)
qed

text \<open>C2, at the first scenario of the specification, whose result has one entry.\<close>

theorem results_never_empty_witness:
  "parse_jupyter_notebook example_fs ''demo.ipynb''
     = (Inr [\<lparr>title = ''Compute Sum'', output = ''2''\<rparr>], example_fs)
   \<and> title \<lparr>title = ''Compute Sum'', output = ''2''\<rparr> \<noteq> []
   \<and> output \<lparr>title = ''Compute Sum'', output = ''2''\<rparr> \<noteq> []"
proof -
  have run: "parse_jupyter_notebook example_fs ''demo.ipynb''
     = (Inr [\<lparr>title = ''Compute Sum'', output = ''2''\<rparr>], example_fs)"
    by (simp add: parse_jupyter_notebook_def example_fs_def example_parsed)
  have "\<lparr>title = ''Compute Sum'', output = ''2''\<rparr>
      \<in> set [\<lparr>title = ''Compute Sum'', output = ''2''\<rparr>]"
    by simp
  with run have "title \<lparr>title = ''Compute Sum'', output = ''2''\<rparr> \<noteq> []
      \<and> output \<lparr>title = ''Compute Sum'', output = ''2''\<rparr> \<noteq> []"
    by (rule results_never_empty)
  with run show ?thesis
    by blast
qed



section \<open>Claims about the title extractor\<close>






text \<open>
  C4, as the code has it. When the source of a cell, joined, begins with three double
  quotes, then one or more white-space characters other than the line feed, then a line
  feed, the pattern matches there, the title is empty and the cell yields no entry. When
  the line feed follows the quotes immediately, the pattern does not match there and the
  search goes on: the title is the one found in the text after that line feed.
\<close>

theorem padded_first_line_excluded:
  "(ws \<noteq> [] \<and> (\<forall>c \<in> set ws. is_space c \<and> c \<noteq> newline)
      \<and> map_of cell ''source'' = Some source
      \<and> join_source source = Inr (JStr (triple_quote @ ws @ newline # rest))
    \<longrightarrow> extract_title_from_source (triple_quote @ ws @ newline # rest) = []
        \<and> (\<forall>r. process_cell (JObj cell) \<noteq> Inr (Some r)))
   \<and> extract_title_from_source (triple_quote @ newline # rest) = extract_title_from_source rest"
proof (intro conjI impI)
  assume a: "ws \<noteq> [] \<and> (\<forall>c \<in> set ws. is_space c \<and> c \<noteq> newline)
      \<and> map_of cell ''source'' = Some source
      \<and> join_source source = Inr (JStr (triple_quote @ ws @ newline # rest))"
  then have "re_search_docstring (triple_quote @ ws @ newline # rest) = Some ws"
    by (simp add: search_padded_line)
  moreover from a have "strip ws = []"
    by (simp add: strip_all_space)
  ultimately show t: "extract_title_from_source (triple_quote @ ws @ newline # rest) = []"
    by (simp add: extract_title_from_source_def)
  show "\<forall>r. process_cell (JObj cell) \<noteq> Inr (Some r)"
  proof (intro allI notI)
    fix r
    assume r: "process_cell (JObj cell) = Inr (Some r)"
    with a have "title r = extract_title_from_source (triple_quote @ ws @ newline # rest)"
      using process_cell_title by blast
    with t have "title r = []"
      by simp
    with r show False
      using process_cell_nonempty by blast
  qed
next
  show "extract_title_from_source (triple_quote @ newline # rest) = extract_title_from_source rest"
    by (simp add: extract_title_from_source_def search_after_blank_line)
qed

text \<open>
  C4, at a cell whose source comes in three fragments and opens with a line of a space
  and a tab: the title is empty, and the entry that the second line and the output would
  make is not produced.
\<close>

theorem padded_first_line_excluded_witness:
  "extract_title_from_source
     (triple_quote @ [CHR 0x20, CHR 0x09] @ newline # ''Summary'' @ [newline] @ triple_quote) = []
   \<and> process_cell (JObj padded_first_cell) \<noteq> Inr (Some \<lparr>title = ''Summary'', output = ''1''\<rparr>)
   \<and> extract_title_from_source (triple_quote @ newline # ''x = 1'') = extract_title_from_source ''x = 1''"
proof -
  let ?ws = "[CHR 0x20, CHR 0x09]"
  let ?rest = "''Summary'' @ [newline] @ triple_quote"
  let ?source = "JArr [JStr (triple_quote @ [CHR 0x20, CHR 0x09] @ [newline]),
                        JStr (''Summary'' @ [newline]), JStr triple_quote]"
  have ws: "?ws \<noteq> [] \<and> (\<forall>c \<in> set ?ws. is_space c \<and> c \<noteq> newline)"
    by (simp add: is_space_def newline_def)
  have src: "map_of padded_first_cell ''source'' = Some ?source"
    by (simp add: padded_first_cell_def)
  have joined: "join_source ?source = Inr (JStr (triple_quote @ ?ws @ newline # ?rest))"
    by (simp add: join_source_def str_join_def ebind_Inr)
  from padded_first_line_excluded [of ?ws padded_first_cell ?source ?rest] ws src joined
  have t: "extract_title_from_source (triple_quote @ ?ws @ newline # ?rest) = []"
    and none: "\<forall>r. process_cell (JObj padded_first_cell) \<noteq> Inr (Some r)"
    by blast+
  from t none padded_first_line_excluded [of ?ws padded_first_cell ?source "''x = 1''"]
  show ?thesis
    by simp
qed

text \<open>
  C4 as the specification states it fails: the source \<open>blank_first_source\<close> begins with a
  docstring whose first line is blank, yet the title is \<^verbatim>\<open>Helper\<close>, taken from the
  docstring of the function below, and the cell is in the result.
\<close>

theorem blank_first_line_counterexample:
  "prefix (triple_quote @ [newline]) blank_first_source
   \<and> extract_title_from_source blank_first_source = ''Helper''
   \<and> parse_notebook (JObj [(''cells'', JArr [blank_first_cell])])
       = Inr [\<lparr>title = ''Helper'', output = ''1''\<rparr>]"
proof -
  have a: "prefix (triple_quote @ [newline]) blank_first_source"
    by (simp add: blank_first_source_def)
  have b: "extract_title_from_source blank_first_source = ''Helper''"
    by code_simp
  have c: "parse_notebook (JObj [(''cells'', JArr [blank_first_cell])])
       = Inr [\<lparr>title = ''Helper'', output = ''1''\<rparr>]"
    by code_simp
  from a b c show ?thesis
    by blast
qed

section \<open>Claims about the output normalizer\<close>

text \<open>
  C5: an output record of type \<^verbatim>\<open>error\<close> whose traceback is a list of strings that is not
  empty adds one fragment to the list built so far: every line but the last followed by a
  line feed, then the last line. A code cell with a title whose only output record is such
  a record yields an entry with that title and, as output, this text trimmed and freed of
  escape sequences, provided something is left of it; for the two traceback lines of the
  specification the output is \<^verbatim>\<open>Traceback (most recent call last):\nValueError: bad\<close>. The
  source of the cell may be a string or a list of fragments.
\<close>

theorem error_traceback_joined:
  "map_of kvs ''output_type'' = Some (JStr ''error'') \<Longrightarrow>
   map_of kvs ''traceback'' = Some (JArr (map JStr ls)) \<Longrightarrow> ls \<noteq> [] \<Longrightarrow>
     output_step (JObj kvs) output_texts
       = Inr (output_texts @ [JStr (concat (map (\<lambda>l. l @ [CHR 0x0A]) (butlast ls)) @ last ls)])
   \<and> (map_of cell ''cell_type'' = Some (JStr ''code'') \<and> map_of cell ''source'' = Some source
        \<and> join_source source = Inr (JStr src) \<and> extract_title_from_source src \<noteq> []
        \<and> map_of cell ''outputs'' = Some (JArr [JObj kvs])
      \<longrightarrow> (remove_ansi_codes (strip (concat (map (\<lambda>l. l @ [CHR 0x0A]) (butlast ls)) @ last ls)) \<noteq> []
            \<longrightarrow> process_cell (JObj cell) = Inr (Some \<lparr>title = extract_title_from_source src,
                  output = remove_ansi_codes
                    (strip (concat (map (\<lambda>l. l @ [CHR 0x0A]) (butlast ls)) @ last ls))\<rparr>))
          \<and> (ls = [''Traceback (most recent call last):'', ''ValueError: bad'']
            \<longrightarrow> process_cell (JObj cell) = Inr (Some \<lparr>title = extract_title_from_source src,
                  output = ''Traceback (most recent call last):'' @ [CHR 0x0A] @ ''ValueError: bad''\<rparr>)))"
proof -
  let ?joined = "concat (map (\<lambda>l. l @ [CHR 0x0A]) (butlast ls)) @ last ls"
  assume ty: "map_of kvs ''output_type'' = Some (JStr ''error'')"
    and tb: "map_of kvs ''traceback'' = Some (JArr (map JStr ls))" and ne: "ls \<noteq> []"
  have "join_strings [newline] ls = ?joined"
    using ne by (simp add: join_strings_lines newline_def)
  then have step: "output_step (JObj kvs) texts = Inr (texts @ [JStr ?joined])" for texts
    using error_step [OF ty tb ne] by simp
  have out: "extract_output_from_outputs (JArr [JObj kvs]) = Inr (remove_ansi_codes (strip ?joined))"
    by (simp add: extract_output_from_outputs_def ebind_Inr step str_join_def)
  have cell_run: "process_cell (JObj cell)
      = (if remove_ansi_codes (strip ?joined) \<noteq> []
         then Inr (Some \<lparr>title = extract_title_from_source src,
                output = remove_ansi_codes (strip ?joined)\<rparr>)
         else Inr None)"
    if c: "map_of cell ''cell_type'' = Some (JStr ''code'') \<and> map_of cell ''source'' = Some source
        \<and> join_source source = Inr (JStr src) \<and> extract_title_from_source src \<noteq> []
        \<and> map_of cell ''outputs'' = Some (JArr [JObj kvs])"
  proof -
    from c have "src \<noteq> []"
      by (simp add: title_needs_text)
    with c have "truthy source"
      using source_truthy by blast
    with c show ?thesis
      by (simp add: process_cell_def ebind_Inr title_of_source_text_def out)
  qed
  have spec_text: "remove_ansi_codes (strip ?joined)
      = ''Traceback (most recent call last):'' @ [CHR 0x0A] @ ''ValueError: bad''"
    if "ls = [''Traceback (most recent call last):'', ''ValueError: bad'']"
    unfolding that
    by (simp add: remove_ansi_codes_def strip_def is_space_def match_ansi_def)
  show ?thesis
  proof (intro conjI impI)
    show "output_step (JObj kvs) output_texts = Inr (output_texts @ [JStr ?joined])"
      by (rule step)
  next
    assume c: "map_of cell ''cell_type'' = Some (JStr ''code'') \<and> map_of cell ''source'' = Some source
        \<and> join_source source = Inr (JStr src) \<and> extract_title_from_source src \<noteq> []
        \<and> map_of cell ''outputs'' = Some (JArr [JObj kvs])"
      and "remove_ansi_codes (strip ?joined) \<noteq> []"
    then show "process_cell (JObj cell) = Inr (Some \<lparr>title = extract_title_from_source src,
                  output = remove_ansi_codes (strip ?joined)\<rparr>)"
      by (simp add: cell_run)
  next
    assume c: "map_of cell ''cell_type'' = Some (JStr ''code'') \<and> map_of cell ''source'' = Some source
        \<and> join_source source = Inr (JStr src) \<and> extract_title_from_source src \<noteq> []
        \<and> map_of cell ''outputs'' = Some (JArr [JObj kvs])"
      and l: "ls = [''Traceback (most recent call last):'', ''ValueError: bad'']"
    from cell_run [OF c] spec_text [OF l]
    show "process_cell (JObj cell) = Inr (Some \<lparr>title = extract_title_from_source src,
                  output = ''Traceback (most recent call last):'' @ [CHR 0x0A] @ ''ValueError: bad''\<rparr>)"
      by simp
  qed
qed

text \<open>
  C5, at the error record of the specification, after an earlier fragment and as the only
  output of a cell titled \<^verbatim>\<open>Risky step\<close>, and at a cell whose source comes in fragments and
  whose traceback has three lines.
\<close>

theorem error_traceback_joined_witness:
  "output_step error_record [JStr ''earlier'']
     = Inr [JStr ''earlier'',
            JStr (''Traceback (most recent call last):'' @ [CHR 0x0A] @ ''ValueError: bad'')]
   \<and> process_cell error_cell = Inr (Some \<lparr>title = ''Risky step'',
        output = ''Traceback (most recent call last):'' @ [CHR 0x0A] @ ''ValueError: bad''\<rparr>)
   \<and> process_cell long_error_cell = Inr (Some \<lparr>title = ''Look up'',
        output = ''Traceback:'' @ [CHR 0x0A] @ ''  step'' @ [CHR 0x0A] @ ''KeyError: k''\<rparr>)"
proof -
  let ?ls = "[''Traceback (most recent call last):'', ''ValueError: bad'']"
  let ?kvs = "[(''output_type'', JStr ''error''), (''traceback'', JArr (map JStr ?ls))]"
  let ?src = "triple_quote @ ''Risky step'' @ [newline] @ ''run()''"
  let ?cell = "[(''cell_type'', JStr ''code''), (''source'', JStr ?src),
      (''outputs'', JArr [JObj ?kvs])]"
  let ?ls2 = "[''Traceback:'', ''  step'', ''KeyError: k'']"
  let ?kvs2 = "[(''output_type'', JStr ''error''), (''traceback'', JArr (map JStr ?ls2))]"
  let ?source2 = "JArr [JStr (triple_quote @ ''Look up'' @ [newline]), JStr triple_quote]"
  let ?src2 = "triple_quote @ ''Look up'' @ [newline] @ triple_quote"
  let ?cell2 = "[(''cell_type'', JStr ''code''), (''source'', ?source2),
      (''outputs'', JArr [JObj ?kvs2])]"
  have t: "extract_title_from_source ?src = ''Risky step''"
    by (simp add: extract_title_from_source_def match_docstring_def triple_quote_def dq_def
        newline_def strip_def is_space_def)
  have t2: "extract_title_from_source ?src2 = ''Look up''"
    by (simp add: extract_title_from_source_def match_docstring_def triple_quote_def dq_def
        newline_def strip_def is_space_def)
  have j: "join_source (JStr ?src) = Inr (JStr ?src)"
    by (simp add: join_source_def)
  have j2: "join_source ?source2 = Inr (JStr ?src2)"
    by (simp add: join_source_def str_join_def ebind_Inr)
  have clean2: "remove_ansi_codes (strip (concat (map (\<lambda>l. l @ [CHR 0x0A]) (butlast ?ls2)) @ last ?ls2))
      = ''Traceback:'' @ [CHR 0x0A] @ ''  step'' @ [CHR 0x0A] @ ''KeyError: k''"
    by (simp add: remove_ansi_codes_def strip_def is_space_def match_ansi_def)
  have cell: "error_cell = JObj ?cell"
    by (simp add: error_cell_def error_record_def traceback_lines_def)
  have cell2: "long_error_cell = JObj ?cell2"
    by (simp add: long_error_cell_def)
  have rec: "error_record = JObj ?kvs"
    by (simp add: error_record_def traceback_lines_def)
  from error_traceback_joined [of ?kvs ?ls "[JStr ''earlier'']" ?cell "JStr ?src" ?src] t j
  have a: "output_step (JObj ?kvs) [JStr ''earlier'']
      = Inr [JStr ''earlier'',
            JStr (''Traceback (most recent call last):'' @ [CHR 0x0A] @ ''ValueError: bad'')]"
    and b: "process_cell (JObj ?cell) = Inr (Some \<lparr>title = ''Risky step'',
        output = ''Traceback (most recent call last):'' @ [CHR 0x0A] @ ''ValueError: bad''\<rparr>)"
    by simp_all
  from error_traceback_joined [of ?kvs2 ?ls2 "[]" ?cell2 ?source2 ?src2] t2 j2 clean2
  have c: "process_cell (JObj ?cell2) = Inr (Some \<lparr>title = ''Look up'',
        output = ''Traceback:'' @ [CHR 0x0A] @ ''  step'' @ [CHR 0x0A] @ ''KeyError: k''\<rparr>)"
    by simp
  from a b c show ?thesis
    by (simp only: cell cell2 rec)
qed



text \<open>
  C10: an output record without the key \<^verbatim>\<open>output_type\<close> is of no recognised type. The loop
  passes it over without an error and leaves the fragments as they are, so the output
  text is the one of the records around it.
\<close>

theorem record_without_output_type_skipped:
  "map_of kvs ''output_type'' = None \<Longrightarrow>
     output_step (JObj kvs) output_texts = Inr output_texts
   \<and> extract_output_from_outputs (JArr (before @ JObj kvs # after))
       = extract_output_from_outputs (JArr (before @ after))"
proof -
  assume none: "map_of kvs ''output_type'' = None"
  then have step: "output_step (JObj kvs) texts = Inr texts" for texts
    by (simp add: output_step_def ebind_Inr)
  have "collect_outputs (before @ JObj kvs # after) [] = collect_outputs (before @ after) []"
    by (cases "collect_outputs before []")
      (simp_all add: collect_outputs_append ebind_Inl ebind_Inr step)
  with step show ?thesis
    by (simp add: extract_output_from_outputs_def ebind_Inr)
qed

text \<open>C10, at a record that has a text and no type, between two error records.\<close>

theorem record_without_output_type_skipped_witness:
  "output_step (JObj [(''text'', JStr ''lost'')]) [JStr ''kept''] = Inr [JStr ''kept'']
   \<and> extract_output_from_outputs
        (JArr ([error_record] @ JObj [(''text'', JStr ''lost'')] # [error_record]))
       = extract_output_from_outputs (JArr ([error_record] @ [error_record]))"
  using record_without_output_type_skipped
    [of "[(''text'', JStr ''lost'')]" "[JStr ''kept'']" "[error_record]" "[error_record]"]
  by simp

section \<open>Claims about saving the results\<close>

text \<open>
  C8: the default target is meant to be the source path with its ending \<^verbatim>\<open>.ipynb\<close> replaced,
  as it is for \<^verbatim>\<open>demo.ipynb\<close>. But \<^verbatim>\<open>notebook_path.replace('.ipynb', '_parsed.json')\<close>
  replaces every occurrence, so for the same notebook in Jupyter's directory
  \<^verbatim>\<open>.ipynb_checkpoints\<close> the directory part of the path is rewritten as well.
\<close>

theorem default_path_replaces_every_occurrence:
  "fst (save_parsed_results example_fs ''demo.ipynb'' None False) = Inr ''demo_parsed.json''
   \<and> fst (save_parsed_results checkpoint_fs ''.ipynb_checkpoints/demo.ipynb'' None False)
       = Inr ''_parsed.json_checkpoints/demo_parsed.json''"
  by (simp add: save_parsed_results_def parse_jupyter_notebook_def example_fs_def checkpoint_fs_def
      example_parsed str_replace_def Let_def)

end
